theory Spec2Isabelle
  imports Main "HOL-Library.Char_ord" "HOL-Library.List_Lexorder"
begin

section \<open>Library boundary: net/url query values\<close>

text \<open>
  \<^verbatim>\<open>url.Values\<close> is \<^verbatim>\<open>map[string][]string\<close>. It is kept as an association list with
  one entry per key; the order of the entries plays no role, because \<^verbatim>\<open>Encode\<close> sorts
  the keys. Strings are byte strings, compared bytewise as Go compares them.
\<close>

type_synonym Values = "(string \<times> string list) list"

text \<open>\<^verbatim>\<open>v[key]\<close>: the nil slice when the key is absent.\<close>

definition Values_lookup :: "Values \<Rightarrow> string \<Rightarrow> string list" where
  "Values_lookup v key = (case map_of v key of None \<Rightarrow> [] | Some vs \<Rightarrow> vs)"

text \<open>\<^verbatim>\<open>func (v Values) Add(key, value string) { v[key] = append(v[key], value) }\<close>\<close>

fun Values_Add :: "Values \<Rightarrow> string \<Rightarrow> string \<Rightarrow> Values" where
  "Values_Add [] key val = [(key, [val])]"
| "Values_Add ((k, vs) # rest) key val =
     (if k = key then (k, vs @ [val]) # rest else (k, vs) # Values_Add rest key val)"

definition upperhex :: string where
  "upperhex = ''0123456789ABCDEF''"

text \<open>
  \<^verbatim>\<open>shouldEscape(c, encodeQueryComponent)\<close>: only the unreserved characters of RFC 3986
  stay as they are.
\<close>

definition shouldEscape :: "char \<Rightarrow> bool" where
  "shouldEscape c =
     (if (CHR ''a'' \<le> c \<and> c \<le> CHR ''z'') \<or> (CHR ''A'' \<le> c \<and> c \<le> CHR ''Z'')
          \<or> (CHR ''0'' \<le> c \<and> c \<le> CHR ''9'') then False
      else if c = CHR ''-'' \<or> c = CHR ''_'' \<or> c = CHR ''.'' \<or> c = CHR ''~'' then False
      else True)"

text \<open>
  \<^verbatim>\<open>QueryEscape\<close>: a space becomes \<^verbatim>\<open>+\<close>, every other escaped byte becomes \<^verbatim>\<open>%XX\<close> with
  upper-case hexadecimal digits.
\<close>

fun QueryEscape :: "string \<Rightarrow> string" where
  "QueryEscape [] = []"
| "QueryEscape (c # cs) =
     (if shouldEscape c then
        (if c = CHR '' '' then ''+''
         else [CHR ''%'', upperhex ! (of_char c div 16), upperhex ! (of_char c mod 16)])
      else [c]) @ QueryEscape cs"

text \<open>
  \<^verbatim>\<open>Values.Encode\<close>: the inner loop over the values of one key writes into the buffer,
  putting \<^verbatim>\<open>&\<close> in front of every pair but the first.
\<close>

fun encodeValues :: "string \<Rightarrow> string \<Rightarrow> string list \<Rightarrow> string" where
  "encodeValues buf keyEscaped [] = buf"
| "encodeValues buf keyEscaped (v # vs) =
     encodeValues ((if length buf > 0 then buf @ ''&'' else buf) @ keyEscaped @ ''='' @ QueryEscape v)
       keyEscaped vs"

fun encodeKeys :: "Values \<Rightarrow> string \<Rightarrow> string list \<Rightarrow> string" where
  "encodeKeys v buf [] = buf"
| "encodeKeys v buf (k # keys) =
     encodeKeys v (encodeValues buf (QueryEscape k) (Values_lookup v k)) keys"

definition Values_Encode :: "Values \<Rightarrow> string" where
  "Values_Encode v = (if length v = 0 then [] else encodeKeys v [] (sort (map fst v)))"

text \<open>
  \<^verbatim>\<open>stringContainsCTLByte\<close>, the first test of \<^verbatim>\<open>url.Parse\<close>: a URL with an ASCII control
  byte is rejected.
\<close>

definition stringContainsCTLByte :: "string \<Rightarrow> bool" where
  "stringContainsCTLByte s = list_ex (\<lambda>b. b < CHR '' '' \<or> b = CHR 0x7F) s"

section \<open>Library boundary: net/http headers\<close>

type_synonym Header = "(string \<times> string list) list"

text \<open>The token bytes of HTTP (\<^verbatim>\<open>validHeaderFieldByte\<close>, \<^verbatim>\<open>httpguts.IsTokenRune\<close>).\<close>

definition isTokenByte :: "char \<Rightarrow> bool" where
  "isTokenByte c =
     ((CHR ''a'' \<le> c \<and> c \<le> CHR ''z'') \<or> (CHR ''A'' \<le> c \<and> c \<le> CHR ''Z'')
      \<or> (CHR ''0'' \<le> c \<and> c \<le> CHR ''9'') \<or> List.member ''!#$%&*+-.^_`|~'' c \<or> c = CHR 0x27)"

fun canonicalCase :: "bool \<Rightarrow> string \<Rightarrow> string" where
  "canonicalCase upper [] = []"
| "canonicalCase upper (c # cs) =
     (let c' = (if upper \<and> CHR ''a'' \<le> c \<and> c \<le> CHR ''z'' then char_of (of_char c - (32::nat))
                else if \<not> upper \<and> CHR ''A'' \<le> c \<and> c \<le> CHR ''Z'' then char_of (of_char c + (32::nat))
                else c)
      in c' # canonicalCase (c' = CHR ''-'') cs)"

text \<open>
  \<^verbatim>\<open>textproto.CanonicalMIMEHeaderKey\<close>: a key with a byte that is no token byte is
  returned unchanged.
\<close>

definition CanonicalMIMEHeaderKey :: "string \<Rightarrow> string" where
  "CanonicalMIMEHeaderKey s = (if list_all isTokenByte s then canonicalCase True s else s)"

text \<open>\<^verbatim>\<open>h[key] = []string{value}\<close> on the association list.\<close>

fun assign :: "Header \<Rightarrow> string \<Rightarrow> string list \<Rightarrow> Header" where
  "assign [] key vs = [(key, vs)]"
| "assign ((k, old) # rest) key vs =
     (if k = key then (k, vs) # rest else (k, old) # assign rest key vs)"

definition Header_Add :: "Header \<Rightarrow> string \<Rightarrow> string \<Rightarrow> Header" where
  "Header_Add h key val = Values_Add h (CanonicalMIMEHeaderKey key) val"

definition Header_Set :: "Header \<Rightarrow> string \<Rightarrow> string \<Rightarrow> Header" where
  "Header_Set h key val = assign h (CanonicalMIMEHeaderKey key) [val]"

text \<open>\<^verbatim>\<open>Header.Get\<close>: the first value of the key, the empty string when there is none.\<close>

definition Header_Get :: "Header \<Rightarrow> string \<Rightarrow> string" where
  "Header_Get h key =
     (case map_of h (CanonicalMIMEHeaderKey key) of
        None \<Rightarrow> []
      | Some vs \<Rightarrow> (case vs of [] \<Rightarrow> [] | v # rest \<Rightarrow> v))"

section \<open>Data model\<close>

text \<open>
  Go's \<^verbatim>\<open>error\<close> values are opaque; \<^verbatim>\<open>UrlError op url err\<close> is the \<^verbatim>\<open>*url.Error\<close> in
  which \<^verbatim>\<open>http.Client.Do\<close> wraps what the transport returned.
\<close>

datatype error = Error string | UrlError string string error

text \<open>
  What this package reads from a \<^verbatim>\<open>context.Context\<close>: the deadline (nanoseconds; \<open>None\<close>
  when \<^verbatim>\<open>Deadline()\<close> answers \<^verbatim>\<open>ok = false\<close>), the value stored under \<^verbatim>\<open>traceIDKey{}\<close>, and
  the span context (trace id, span id) the tracing library keeps in it.
\<close>

record "context" =
  deadline :: "int option"
  traceIDValue :: "string option"
  spanContext :: "(string \<times> string) option"

text \<open>
  \<^verbatim>\<open>*http.Request\<close>. \<^verbatim>\<open>Header\<close> is a Go map, that is a reference: the request holds the
  address of the header collection in the store of the \<open>world\<close> below, so that two
  holders of the same map see each other's writes. \<open>r_URL\<close> is the URL as the library
  prints it in errors (the password masked), \<open>r_URL_User\<close> is \<^verbatim>\<open>r.URL.User\<close> (user name
  and password, \<open>None\<close> for \<^verbatim>\<open>nil\<close>), \<open>r_Host\<close> and \<open>r_URL_Path\<close> are \<^verbatim>\<open>r.Host\<close> and
  \<^verbatim>\<open>r.URL.Path\<close>.
\<close>

record request =
  r_Method :: string
  r_URL :: string
  r_URL_User :: "(string \<times> string) option"
  r_Host :: string
  r_URL_Path :: string
  r_Header :: nat
  r_Body :: "string option"
  r_Context :: "context"

text \<open>
  \<^verbatim>\<open>*http.Response\<close>: the status code and the content of the body. A response has no
  header fields here, in particular no \<^verbatim>\<open>Location\<close>, and \<^verbatim>\<open>http.Client\<close> follows a redirect
  only to a \<^verbatim>\<open>Location\<close>.
\<close>

record response =
  StatusCode :: int
  resp_Body :: string

text \<open>A call either returns or panics.\<close>

datatype 'a outcome = Return 'a | Panic string

text \<open>The pair \<^verbatim>\<open>(*http.Response, error)\<close> of \<^verbatim>\<open>RoundTrip\<close>; \<open>None\<close> is \<^verbatim>\<open>nil\<close>.\<close>

type_synonym roundtrip = "response option \<times> error option"

text \<open>
  Fields of the structured logger. \<open>zap_String_time key t\<close> stands for
  \<^verbatim>\<open>zap.String(key, t.Format("2006-01-02 15:04:05"))\<close>.
\<close>

datatype field =
    zap_String string string
  | zap_Int64 string int
  | zap_Int string int
  | zap_String_time string int

text \<open>
  What the package does to its collaborators, in the order it happens. \<open>Entered\<close>,
  \<open>Exited\<close>, \<open>Sent\<close> and \<open>Carried\<close> are written by the recording decorators and the
  recording base transports defined further down, never by the package itself.
\<close>

datatype event =
    LogInfo string "field list"
  | TracerRequested string
  | SpanStarted string string string
  | SpanEnded string
  | CtxDerived nat
  | CtxCancelled nat
  | BodyClosed
  | Entered nat
  | Exited nat "roundtrip outcome"
  | Sent request
  | Carried Header

text \<open>
  Everything outside a single call: the clock (nanoseconds; \<open>ticks\<close> says how far it
  advances before each of the next readings), the package-global \<^verbatim>\<open>logger\<close> (the fields
  accumulated by \<^verbatim>\<open>With\<close>), the trace of events, the store of header collections, and
  the supplies of cancel functions and of trace and span identifiers.
\<close>

record world =
  clock :: int
  ticks :: "nat list"
  logger :: "field list"
  events :: "event list"
  headers :: "nat \<Rightarrow> Header"
  nextHeader :: nat
  nextCancel :: nat
  traceIDs :: "nat \<Rightarrow> string"
  spanIDs :: "nat \<Rightarrow> string"
  nextID :: nat

type_synonym RoundTripper = "request \<Rightarrow> world \<Rightarrow> roundtrip outcome \<times> world"

text \<open>
  \<^verbatim>\<open>func(http.RoundTripper) http.RoundTripper\<close>: wrapping is itself a call and may act on
  the world (\<^verbatim>\<open>TraceTransport\<close> asks the global provider for a tracer).
\<close>

type_synonym transportWrapper = "RoundTripper \<Rightarrow> world \<Rightarrow> RoundTripper \<times> world"

section \<open>Library boundary: time, context, tracing\<close>

definition Second :: int where
  "Second = 1000000000"

text \<open>\<^verbatim>\<open>time.Now()\<close>: the clock advances by the next tick and is read.\<close>

definition time_Now :: "world \<Rightarrow> int \<times> world" where
  "time_Now w =
     (case ticks w of
        [] \<Rightarrow> (clock w, w)
      | k # ks \<Rightarrow> (clock w + int k, w\<lparr>clock := clock w + int k, ticks := ks\<rparr>))"

text \<open>\<^verbatim>\<open>Duration.Milliseconds()\<close>: integer division truncating towards zero.\<close>

definition Milliseconds :: "int \<Rightarrow> int" where
  "Milliseconds d = (if d < 0 then - ((- d) div 1000000) else d div 1000000)"

text \<open>
  \<^verbatim>\<open>context.WithDeadline\<close>: a derived context with its cancel function (a fresh number).
  When the parent's deadline is already earlier than \<open>d\<close>, the derived context keeps
  the parent's deadline.
\<close>

definition context_WithDeadline :: "context \<Rightarrow> int \<Rightarrow> world \<Rightarrow> (context \<times> nat) \<times> world" where
  "context_WithDeadline parent d w =
     (let c = nextCancel w;
          w' = w\<lparr>nextCancel := c + 1, events := events w @ [CtxDerived c]\<rparr>
      in case deadline parent of
           Some cur \<Rightarrow>
             if cur < d then ((parent, c), w') else ((parent\<lparr>deadline := Some d\<rparr>, c), w')
         | None \<Rightarrow> ((parent\<lparr>deadline := Some d\<rparr>, c), w'))"

text \<open>\<^verbatim>\<open>WithTimeout(parent, t) = WithDeadline(parent, time.Now().Add(t))\<close>\<close>

definition context_WithTimeout :: "context \<Rightarrow> int \<Rightarrow> world \<Rightarrow> (context \<times> nat) \<times> world" where
  "context_WithTimeout parent timeout w =
     (let (now, w1) = time_Now w in context_WithDeadline parent (now + timeout) w1)"

text \<open>Calling a cancel function releases the derived context.\<close>

definition call_cancel :: "nat \<Rightarrow> world \<Rightarrow> world" where
  "call_cancel c w = w\<lparr>events := events w @ [CtxCancelled c]\<rparr>"

text \<open>\<^verbatim>\<open>otel.Tracer(name)\<close>\<close>

definition otel_Tracer :: "string \<Rightarrow> world \<Rightarrow> world" where
  "otel_Tracer name w = w\<lparr>events := events w @ [TracerRequested name]\<rparr>"

text \<open>
  \<^verbatim>\<open>tracer.Start(ctx, spanName)\<close>: a new span with a fresh span id; it continues the trace
  of the span already in the context, or starts a new trace. The derived context carries
  the new span.
\<close>

definition tracer_Start ::
  "string \<Rightarrow> context \<Rightarrow> string \<Rightarrow> world \<Rightarrow> (context \<times> (string \<times> string)) \<times> world" where
  "tracer_Start name ctx spanName w =
     (let n = nextID w;
          tid = (case spanContext ctx of Some (t, s) \<Rightarrow> t | None \<Rightarrow> traceIDs w n);
          span = (tid, spanIDs w n);
          w' = w\<lparr>nextID := n + 1, events := events w @ [SpanStarted name spanName (snd span)]\<rparr>
      in ((ctx\<lparr>spanContext := Some span\<rparr>, span), w'))"

text \<open>
  \<^verbatim>\<open>otel.GetTextMapPropagator().Inject(ctx, propagation.HeaderCarrier(h))\<close> with the
  \<^verbatim>\<open>TraceContext\<close> propagator set by \<^verbatim>\<open>initTrace\<close>: \<^verbatim>\<open>h.Set("traceparent", ...)\<close> on the
  collection at address \<open>h\<close>, for a sampled span.
\<close>

definition Inject :: "context \<Rightarrow> nat \<Rightarrow> world \<Rightarrow> world" where
  "Inject ctx h w =
     (case spanContext ctx of
        None \<Rightarrow> w
      | Some (tid, sid) \<Rightarrow>
          w\<lparr>headers := (headers w)
               (h := Header_Set (headers w h) ''traceparent'' (''00-'' @ tid @ ''-'' @ sid @ ''-01''))\<rparr>)"

section \<open>The decorators\<close>

definition contextWithTraceID :: "context \<Rightarrow> string \<Rightarrow> context" where
  "contextWithTraceID ctx traceID = ctx\<lparr>traceIDValue := Some traceID\<rparr>"

definition traceIDFromContext :: "context \<Rightarrow> string" where
  "traceIDFromContext ctx = (case traceIDValue ctx of Some traceID \<Rightarrow> traceID | None \<Rightarrow> [])"

text \<open>
  The end of all three decorators:
  \<^verbatim>\<open>if err != nil { return nil, err }; return resp, nil\<close>. A panic of the inner call goes
  on.
\<close>

fun returned :: "roundtrip outcome \<Rightarrow> roundtrip outcome" where
  "returned (Panic p) = Panic p"
| "returned (Return (resp, err)) = (if err \<noteq> None then Return (None, err) else Return (resp, None))"

definition TraceTransport :: "string \<Rightarrow> transportWrapper" where
  "TraceTransport name next w0 =
     (\<lambda>r w.
        let ((ctx, span), w1) = tracer_Start name (r_Context r) ''client_request'' w;
            w2 = Inject ctx (r_Header r) w1;
            traceID = fst span;
            ctx = contextWithTraceID ctx traceID;
            r = r\<lparr>r_Context := ctx\<rparr>;
            (out, w3) = next r w2
        in (returned out, w3),
      otel_Tracer name w0)"

text \<open>
  The deferred function runs when the call returns and when it panics; it sees the named
  result \<^verbatim>\<open>resp\<close>, which is \<^verbatim>\<open>nil\<close> unless the inner call returned without error. It
  replaces the global \<^verbatim>\<open>logger\<close> and then writes the entry.
\<close>

definition LoggingTransport :: "string \<Rightarrow> transportWrapper" where
  "LoggingTransport name next w0 =
     (\<lambda>r w.
        let (start, w1) = time_Now w;
            (out, w2) = next r w1;
            resp = (case returned out of Return (resp, err) \<Rightarrow> resp | Panic p \<Rightarrow> None);
            (now, w3) = time_Now w2;
            l = logger w3 @
                [zap_String ''host'' (r_Host r),
                 zap_String ''host'' (r_URL_Path r),
                 zap_String ''service'' name,
                 zap_String_time ''start'' start,
                 zap_Int64 ''elapsed'' (Milliseconds (now - start)),
                 zap_String ''trace_id'' (traceIDFromContext (r_Context r))];
            l = (case resp of Some rsp \<Rightarrow> l @ [zap_Int ''statuscode'' (StatusCode rsp)] | None \<Rightarrow> l);
            w4 = w3\<lparr>logger := l, events := events w3 @ [LogInfo ''client_request'' l]\<rparr>
        in (returned out, w4),
      w0)"

text \<open>
  \<^verbatim>\<open>defer cancel()\<close>: the deferred call happens after the result is set, on return and on
  panic. \<^verbatim>\<open>cancel\<close> is \<^verbatim>\<open>nil\<close> when no context was derived, and calling a \<^verbatim>\<open>nil\<close> function
  panics.
\<close>

definition deferred_cancel :: "nat option \<Rightarrow> roundtrip outcome \<times> world \<Rightarrow> roundtrip outcome \<times> world" where
  "deferred_cancel cancel ow =
     (case cancel of
        None \<Rightarrow> (Panic ''invalid memory address or nil pointer dereference'', snd ow)
      | Some c \<Rightarrow> (fst ow, call_cancel c (snd ow)))"

definition TimeoutTransport :: "int \<Rightarrow> transportWrapper" where
  "TimeoutTransport duration0 next w0 =
     (let duration = (if duration0 \<le> 0 then Second * 5 else duration0) in
      (\<lambda>r w.
        let ctx = r_Context r;
            (later, w1) = (case deadline ctx of
                             None \<Rightarrow> (True, w)
                           | Some d \<Rightarrow> (let (now, w') = time_Now w in (now + duration < d, w')));
            ((ctx, cancel), w2) =
               (if later
                then (let ((c, f), w') = context_WithTimeout (r_Context r) duration w1
                      in ((c, Some f), w'))
                else ((ctx, None), w1));
            r = r\<lparr>r_Context := ctx\<rparr>;
            (out, w3) = next r w2
        in deferred_cancel cancel (returned out, w3),
      w0))"

section \<open>Codec\<close>

text \<open>
  The \<^verbatim>\<open>Codec\<close> interface. \<^verbatim>\<open>Decode\<close> writes into the object its second argument points
  to: it returns the object's new content beside the error.
\<close>

record ('a, 'b) Codec =
  Encode :: "'a \<Rightarrow> error + string"
  Decode :: "string \<Rightarrow> 'b \<Rightarrow> error option \<times> 'b"

section \<open>Library boundary: net/http client\<close>

record http_Client =
  Transport :: "RoundTripper option"

text \<open>
  What \<^verbatim>\<open>url.Parse\<close> gives: the host, the path, the user information (user name and
  password, \<open>None\<close> when the URL has none), and the URL as \<^verbatim>\<open>http.Client\<close> prints it in
  an error (\<^verbatim>\<open>stripPassword\<close>).
\<close>

record url_URL =
  u_Host :: string
  u_Path :: string
  u_User :: "(string \<times> string) option"
  u_stripPassword :: string

text \<open>
  What the package takes from its surroundings: \<^verbatim>\<open>http.DefaultTransport\<close>, the package's
  \<^verbatim>\<open>defaultCodec\<close> (JSON), \<^verbatim>\<open>url.Parse\<close>, and \<^verbatim>\<open>basicAuth\<close>, the base64 encoding of user
  name and password for the \<^verbatim>\<open>Authorization\<close> header.
\<close>

record ('a, 'b) env =
  DefaultTransport :: RoundTripper
  defaultCodec :: "('a, 'b) Codec"
  url_Parse :: "string \<Rightarrow> error + url_URL"
  basicAuth :: "string \<Rightarrow> string \<Rightarrow> string"

definition validMethod :: "string \<Rightarrow> bool" where
  "validMethod m = (length m > 0 \<and> list_all isTokenByte m)"

text \<open>
  \<^verbatim>\<open>http.NewRequestWithContext\<close>: the checks in the library's order; the new request gets
  a fresh, empty header collection.
\<close>

definition NewRequestWithContext ::
  "('a, 'b) env \<Rightarrow> context option \<Rightarrow> string \<Rightarrow> string \<Rightarrow> string option \<Rightarrow> world
     \<Rightarrow> (error + request) \<times> world" where
  "NewRequestWithContext env ctx method0 u body w =
     (let method = (if method0 = [] then ''GET'' else method0) in
      if \<not> validMethod method then (Inl (Error ''net/http: invalid method''), w)
      else case ctx of
        None \<Rightarrow> (Inl (Error ''net/http: nil Context''), w)
      | Some c \<Rightarrow>
         (case url_Parse env u of
            Inl err \<Rightarrow> (Inl err, w)
          | Inr parsed \<Rightarrow>
              (Inr \<lparr>r_Method = method, r_URL = u_stripPassword parsed, r_URL_User = u_User parsed,
                    r_Host = u_Host parsed, r_URL_Path = u_Path parsed,
                    r_Header = nextHeader w, r_Body = body, r_Context = c\<rparr>,
               w\<lparr>headers := (headers w)(nextHeader w := []), nextHeader := nextHeader w + 1\<rparr>)))"

text \<open>
  \<^verbatim>\<open>urlErrorOp\<close>: the method with the letters after the first in lower case (\<^verbatim>\<open>Get\<close>,
  \<^verbatim>\<open>Post\<close>); a method with a byte that is not printable ASCII stays as it is.
\<close>

definition urlErrorOp :: "string \<Rightarrow> string" where
  "urlErrorOp m =
     (case m of
        [] \<Rightarrow> ''Get''
      | c # cs \<Rightarrow>
          if list_all (\<lambda>b. CHR '' '' \<le> b \<and> b \<le> CHR ''~'') m
          then c # map (\<lambda>b. if CHR ''A'' \<le> b \<and> b \<le> CHR ''Z'' then char_of (of_char b + (32::nat)) else b) cs
          else m)"

text \<open>
  \<^verbatim>\<open>http.Client.Do\<close> with the client \<^verbatim>\<open>Do\<close> builds (no jar, no timeout, no
  \<^verbatim>\<open>CheckRedirect\<close>). A \<^verbatim>\<open>nil\<close> transport means \<^verbatim>\<open>http.DefaultTransport\<close>. When the URL
  carries user information and the request has no \<^verbatim>\<open>Authorization\<close> header, the request is
  forked: the transport gets a copy of the request with a clone of the header collection,
  in which \<^verbatim>\<open>Authorization\<close> is set; otherwise the request goes to the transport as it is.
  An error comes back wrapped in a \<^verbatim>\<open>*url.Error\<close>, and a \<^verbatim>\<open>nil\<close> response with a \<^verbatim>\<open>nil\<close>
  error is an error. A response is returned as it is: it has no \<^verbatim>\<open>Location\<close> to follow.
\<close>

definition Client_Do ::
  "('a, 'b) env \<Rightarrow> http_Client \<Rightarrow> request \<Rightarrow> world \<Rightarrow> roundtrip outcome \<times> world" where
  "Client_Do env c ireq w =
     (let rt = (case Transport c of None \<Rightarrow> DefaultTransport env | Some t \<Rightarrow> t);
          (req, w0) =
            (case r_URL_User ireq of
               None \<Rightarrow> (ireq, w)
             | Some (username, password) \<Rightarrow>
                 if Header_Get (headers w (r_Header ireq)) ''Authorization'' = []
                 then (ireq\<lparr>r_Header := nextHeader w\<rparr>,
                       w\<lparr>headers := (headers w)
                            (nextHeader w := Header_Set (headers w (r_Header ireq)) ''Authorization''
                                               (''Basic '' @ basicAuth env username password)),
                         nextHeader := nextHeader w + 1\<rparr>)
                 else (ireq, w))
      in case rt req w0 of
        (Panic p, w') \<Rightarrow> (Panic p, w')
      | (Return (resp, Some err), w') \<Rightarrow>
          (Return (None, Some (UrlError (urlErrorOp (r_Method ireq)) (r_URL ireq) err)), w')
      | (Return (None, None), w') \<Rightarrow>
          (Return (None, Some (UrlError (urlErrorOp (r_Method ireq)) (r_URL ireq)
             (Error ''http: RoundTripper implementation returned a nil *Response with a nil error''))), w')
      | (Return (Some resp, None), w') \<Rightarrow> (Return (Some resp, None), w'))"

section \<open>The request builder\<close>

text \<open>
  The \<^verbatim>\<open>builder\<close> struct. \<^verbatim>\<open>header\<close> is the address of the builder's header collection;
  \<^verbatim>\<open>resp\<close> holds the content of the object the response is decoded into. The methods
  take the builder and give back the changed one, as the Go methods change it in place and
  return it.
\<close>

record ('a, 'b) builder =
  baseURL :: string
  url :: string
  "method" :: string
  codec :: "('a, 'b) Codec option"
  resp :: "'b option"
  req :: "'a option"
  client :: "http_Client option"
  "values" :: Values
  header :: nat
  transportWrappers :: "transportWrapper list"
  rebuildTransport :: int
  cachedTransport :: "RoundTripper option"

definition New :: "world \<Rightarrow> ('a, 'b) builder \<times> world" where
  "New w =
     (\<lparr>baseURL = [], url = [], method = [], codec = None, resp = None, req = None,
       client = None, values = [], header = nextHeader w, transportWrappers = [],
       rebuildTransport = 1, cachedTransport = None\<rparr>,
      w\<lparr>headers := (headers w)(nextHeader w := []), nextHeader := nextHeader w + 1\<rparr>)"

definition WrapTransport :: "('a, 'b) builder \<Rightarrow> transportWrapper list \<Rightarrow> ('a, 'b) builder" where
  "WrapTransport b ws = b\<lparr>transportWrappers := transportWrappers b @ ws\<rparr>"

definition URL :: "('a, 'b) builder \<Rightarrow> string \<Rightarrow> ('a, 'b) builder" where
  "URL b u = b\<lparr>url := u\<rparr>"

definition BaseURL :: "('a, 'b) builder \<Rightarrow> string \<Rightarrow> ('a, 'b) builder" where
  "BaseURL b u = b\<lparr>baseURL := u\<rparr>"

definition Method :: "('a, 'b) builder \<Rightarrow> string \<Rightarrow> ('a, 'b) builder" where
  "Method b m = b\<lparr>method := m\<rparr>"

definition QueryString :: "('a, 'b) builder \<Rightarrow> string \<Rightarrow> string \<Rightarrow> ('a, 'b) builder" where
  "QueryString b key val = b\<lparr>values := Values_Add (values b) key val\<rparr>"

text \<open>\<^verbatim>\<open>b.header.Add(key, value)\<close> writes into the store; the builder itself stays.\<close>

definition Header :: "('a, 'b) builder \<Rightarrow> string \<Rightarrow> string \<Rightarrow> world \<Rightarrow> world" where
  "Header b key val w =
     w\<lparr>headers := (headers w)(header b := Header_Add (headers w (header b)) key val)\<rparr>"

definition Codec :: "('a, 'b) builder \<Rightarrow> ('a, 'b) Codec \<Rightarrow> ('a, 'b) builder" where
  "Codec b c = b\<lparr>codec := Some c\<rparr>"

definition Resp :: "('a, 'b) builder \<Rightarrow> 'b \<Rightarrow> ('a, 'b) builder" where
  "Resp b x = b\<lparr>resp := Some x\<rparr>"

definition Req :: "('a, 'b) builder \<Rightarrow> 'a \<Rightarrow> ('a, 'b) builder" where
  "Req b x = b\<lparr>req := Some x\<rparr>"

definition Client :: "('a, 'b) builder \<Rightarrow> http_Client \<Rightarrow> ('a, 'b) builder" where
  "Client b c = b\<lparr>client := Some c\<rparr>"

definition buildURL :: "('a, 'b) builder \<Rightarrow> string" where
  "buildURL b =
     (let u = url b;
          u = (if baseURL b \<noteq> [] then baseURL b @ url b else u);
          u = (if length (values b) \<noteq> 0 then u @ ''?'' @ Values_Encode (values b) else u)
      in u)"

definition buildMethod :: "('a, 'b) builder \<Rightarrow> string" where
  "buildMethod b = (if method b = [] then ''GET'' else method b)"

definition buildCodec :: "('a, 'b) env \<Rightarrow> ('a, 'b) builder \<Rightarrow> ('a, 'b) Codec" where
  "buildCodec env b = (case codec b of None \<Rightarrow> defaultCodec env | Some c \<Rightarrow> c)"

text \<open>The loop of \<^verbatim>\<open>buildTransport\<close>: \<^verbatim>\<open>transport = transportWrapper(transport)\<close>.\<close>

fun applyWrappers :: "transportWrapper list \<Rightarrow> RoundTripper \<Rightarrow> world \<Rightarrow> RoundTripper \<times> world" where
  "applyWrappers [] transport w = (transport, w)"
| "applyWrappers (transportWrapper # rest) transport w =
     (let (transport', w') = transportWrapper transport w in applyWrappers rest transport' w')"

definition buildTransport ::
  "('a, 'b) env \<Rightarrow> ('a, 'b) builder \<Rightarrow> world \<Rightarrow> (RoundTripper option \<times> ('a, 'b) builder) \<times> world" where
  "buildTransport env b w =
     (if rebuildTransport b \<noteq> 1 then ((cachedTransport b, b), w)
      else
        (let (transport, w') = applyWrappers (transportWrappers b) (DefaultTransport env) w
         in ((Some transport, b\<lparr>cachedTransport := Some transport, rebuildTransport := 1\<rparr>), w')))"

definition buildClient ::
  "('a, 'b) env \<Rightarrow> ('a, 'b) builder \<Rightarrow> world \<Rightarrow> (http_Client \<times> ('a, 'b) builder) \<times> world" where
  "buildClient env b w =
     (let ((t, b'), w') = buildTransport env b w in ((\<lparr>Transport = t\<rparr>, b'), w'))"

text \<open>
  \<^verbatim>\<open>Do\<close>. The result is the returned error (\<open>None\<close> for \<^verbatim>\<open>nil\<close>) or a panic, with the
  builder and the world as the call leaves them. The deferred \<^verbatim>\<open>Body.Close()\<close> is the
  last thing done once a response was obtained.
\<close>

definition Do ::
  "('a, 'b) env \<Rightarrow> ('a, 'b) builder \<Rightarrow> context option \<Rightarrow> world
     \<Rightarrow> (error option outcome \<times> ('a, 'b) builder) \<times> world" where
  "Do env b ctx w =
     (let u = buildURL b;
          m = buildMethod b;
          c = buildCodec env b
      in case (case req b of
                 None \<Rightarrow> Inr None
               | Some v \<Rightarrow> (case Encode c v of Inl err \<Rightarrow> Inl err | Inr data \<Rightarrow> Inr (Some data))) of
           Inl err \<Rightarrow> ((Return (Some err), b), w)
         | Inr body \<Rightarrow>
            (case NewRequestWithContext env ctx m u body w of
               (Inl err, w1) \<Rightarrow> ((Return (Some err), b), w1)
             | (Inr httpReq0, w1) \<Rightarrow>
                (let httpReq = httpReq0\<lparr>r_Header := header b\<rparr>;
                     ((cl, b1), w2) = buildClient env b w1;
                     (out, w3) = Client_Do env cl httpReq w2
                 in case out of
                      Panic p \<Rightarrow> ((Panic p, b1), w3)
                    | Return (httpResp, Some err) \<Rightarrow> ((Return (Some err), b1), w3)
                    | Return (None, None) \<Rightarrow>
                        ((Panic ''invalid memory address or nil pointer dereference'', b1), w3)
                    | Return (Some httpResp, None) \<Rightarrow>
                        (case resp b1 of
                           None \<Rightarrow> ((Return None, b1), w3\<lparr>events := events w3 @ [BodyClosed]\<rparr>)
                         | Some target \<Rightarrow>
                             (let (err, target') = Decode c (resp_Body httpResp) target
                              in ((Return err, b1\<lparr>resp := Some target'\<rparr>),
                                  w3\<lparr>events := events w3 @ [BodyClosed]\<rparr>))))))"

section \<open>Recording decorators and a recording base transport\<close>

text \<open>
  A decorator that records when it is entered and what comes back through it, and a base
  transport that records the request it is sent and answers with a fixed result.
\<close>

definition probe :: "nat \<Rightarrow> transportWrapper" where
  "probe i next w0 =
     (\<lambda>r w.
        let (out, w') = next r (w\<lparr>events := events w @ [Entered i]\<rparr>)
        in (out, w'\<lparr>events := events w' @ [Exited i out]\<rparr>),
      w0)"

definition stub :: "roundtrip outcome \<Rightarrow> RoundTripper" where
  "stub out r w = (out, w\<lparr>events := events w @ [Sent r]\<rparr>)"


section \<open>Words of the specification\<close>

text \<open>
  "Per-key values joined": the pairs \<^verbatim>\<open>key=value\<close> written one after the other with \<^verbatim>\<open>&\<close>
  between them. This is the specification's description of the query string, to be
  compared with \<open>Values_Encode\<close>.
\<close>

definition spec_join :: "string list \<Rightarrow> string" where
  "spec_join ps = (case ps of [] \<Rightarrow> [] | p # qs \<Rightarrow> p @ concat (map ((#) CHR ''&'') qs))"

text \<open>
  The bytes an encoded query string may consist of: the unreserved characters, \<^verbatim>\<open>+\<close> for
  a space, \<^verbatim>\<open>%\<close> with its two hexadecimal digits, and the separators \<^verbatim>\<open>=\<close> and \<^verbatim>\<open>&\<close>.
\<close>

definition queryByte :: "char \<Rightarrow> bool" where
  "queryByte c = (\<not> shouldEscape c \<or> c = CHR ''+'' \<or> c = CHR ''%'' \<or> c = CHR ''='' \<or> c = CHR ''&'')"

section \<open>Example inputs\<close>

definition world0 :: world where
  "world0 =
     \<lparr>clock = 1000, ticks = [7, 3000000, 13, 17], logger = [], events = [], headers = (\<lambda>a. []),
      nextHeader = 0, nextCancel = 0,
      traceIDs = (\<lambda>n. ''4bf92f3577b34da6a3ce929d0e0e4736''),
      spanIDs = (\<lambda>n. ''00f067aa0ba902b7''), nextID = 0\<rparr>"

text \<open>\<^verbatim>\<open>context.TODO()\<close>\<close>

definition todo :: "context" where
  "todo = \<lparr>deadline = None, traceIDValue = None, spanContext = None\<rparr>"

definition request0 :: request where
  "request0 =
     \<lparr>r_Method = ''POST'', r_URL = ''http://x/y'', r_URL_User = None, r_Host = ''x'',
      r_URL_Path = ''/y'', r_Header = 0, r_Body = None, r_Context = todo\<rparr>"

definition response0 :: response where
  "response0 = \<lparr>StatusCode = 200, resp_Body = ''b''\<rparr>"

definition ok0 :: "roundtrip outcome" where
  "ok0 = Return (Some response0, None)"

definition failed0 :: "roundtrip outcome" where
  "failed0 = Return (None, Some (Error ''connection refused''))"

text \<open>
  A base transport that answers 200, a codec that cannot encode the value \<open>''chan''\<close>, a
  URL parser that applies the control-byte test and finds no user information, and a
  stand-in for the base64 encoding.
\<close>

definition env0 :: "(string, string) env" where
  "env0 =
     \<lparr>DefaultTransport = stub ok0,
      defaultCodec =
        \<lparr>Encode = (\<lambda>v. if v = ''chan'' then Inl (Error ''json: unsupported type'') else Inr v),
         Decode = (\<lambda>s t. (None, s))\<rparr>,
      url_Parse = (\<lambda>u. if stringContainsCTLByte u
                         then Inl (Error ''net/url: invalid control character in URL'')
                         else Inr \<lparr>u_Host = ''x'', u_Path = ''/y'', u_User = None, u_stripPassword = u\<rparr>),
      basicAuth = (\<lambda>username password. username @ '':'' @ password)\<rparr>"

section \<open>Example runs\<close>

text \<open>A request whose context already carries a deadline half a second away.\<close>

definition requestSoon :: request where
  "requestSoon = request0\<lparr>r_Context := todo\<lparr>deadline := Some 500001000\<rparr>\<rparr>"

text \<open>
  \<^verbatim>\<open>New().WrapTransport(TraceTransport("demo"))\<close>, then \<^verbatim>\<open>buildTransport\<close> twice with nothing in
  between.
\<close>

definition builder1 :: "(string, string) builder" where
  "builder1 = WrapTransport (fst (New world0)) [TraceTransport ''demo'']"

definition built1 :: "(RoundTripper option \<times> (string, string) builder) \<times> world" where
  "built1 = buildTransport env0 builder1 (snd (New world0 :: (string, string) builder \<times> world))"

definition built2 :: "(RoundTripper option \<times> (string, string) builder) \<times> world" where
  "built2 = buildTransport env0 (snd (fst built1)) (snd built1)"

text \<open>
  \<^verbatim>\<open>New().URL("http://x/y").WrapTransport(TraceTransport("demo"))\<close>, executed with
  \<^verbatim>\<open>Do(context.TODO())\<close>.
\<close>

definition builder2 :: "(string, string) builder" where
  "builder2 = WrapTransport (URL (fst (New world0)) ''http://x/y'') [TraceTransport ''demo'']"

definition worldNew :: world where
  "worldNew = snd (New world0 :: (string, string) builder \<times> world)"

definition done1 :: "(error option outcome \<times> (string, string) builder) \<times> world" where
  "done1 = Do env0 builder2 (Some todo) worldNew"

text \<open>\<^verbatim>\<open>New().URL("http://x/y").Req(v)\<close> with a value the codec cannot encode.\<close>

definition builderChan :: "(string, string) builder" where
  "builderChan = Req (URL (fst (New world0)) ''http://x/y'') ''chan''"








text \<open>A second request, to another host.\<close>

definition requestOther :: request where
  "requestOther = request0\<lparr>r_Host := ''z'', r_URL_Path := ''/w''\<rparr>"

section \<open>Composition of the decorators\<close>

lemma applyWrappers_probe_run:
  assumes "\<And>w1. t r w1 = (out, w1\<lparr>events := events w1 @ es\<rparr>)"
  shows "fst (applyWrappers (map probe ids) t w) r w1 =
           (out, w1\<lparr>events := events w1 @ map Entered (rev ids) @ es @ map (\<lambda>i. Exited i out) ids\<rparr>)"
  using assms
proof (induction ids arbitrary: t es w1)
  case Nil
  then show ?case by simp
next
  case (Cons i ids)
  have step: "\<And>w1. fst (probe i t w) r w1 =
      (out, w1\<lparr>events := events w1 @ ([Entered i] @ es @ [Exited i out])\<rparr>)"
    by (simp add: probe_def Cons.prems)
  have "applyWrappers (map probe (i # ids)) t w = applyWrappers (map probe ids) (fst (probe i t w)) w"
    by (simp add: probe_def)
  moreover have "fst (applyWrappers (map probe ids) (fst (probe i t w)) w) r w1 =
      (out, w1\<lparr>events := events w1 @ map Entered (rev ids) @ ([Entered i] @ es @ [Exited i out])
                                    @ map (\<lambda>i. Exited i out) ids\<rparr>)"
    by (rule Cons.IH) (rule step)
  ultimately show ?case by simp
qed

lemma transportWrappers_foldl:
  "transportWrappers (foldl WrapTransport b wss) = transportWrappers b @ concat wss"
  by (induction wss arbitrary: b) (auto simp: WrapTransport_def)

lemma rebuildTransport_foldl:
  "rebuildTransport (foldl WrapTransport b wss) = rebuildTransport b"
  by (induction wss arbitrary: b) (auto simp: WrapTransport_def)

text \<open>
  C1, as the code has it. Recording decorators \<open>probe d\<close> are registered on a new builder
  by any number of \<^verbatim>\<open>WrapTransport\<close> calls, \<open>D1 ... Dn\<close> being all of them in the order of
  registration, and the base transport records the request and answers \<open>out\<close>. Executing
  a request through the transport that \<^verbatim>\<open>buildTransport\<close> returns enters the decorators in
  the order \<open>Dn, ..., D1\<close>, the last registered first, then reaches the base transport,
  and the result comes back unchanged through \<open>D1, ..., Dn\<close>.
\<close>

theorem buildTransport_call_order:
  assumes "buildTransport env (foldl WrapTransport (fst (New w)) (map (map probe) idss)) w' = ((Some t, b'), w'')"
    and "DefaultTransport env = stub out"
  shows "t r w1 = (out, w1\<lparr>events := events w1 @ map Entered (rev (concat idss)) @ [Sent r]
                                  @ map (\<lambda>i. Exited i out) (concat idss)\<rparr>)"
proof -
  let ?b = "foldl WrapTransport (fst (New w)) (map (map probe) idss)"
  have ws: "transportWrappers ?b = map probe (concat idss)"
    by (simp add: transportWrappers_foldl New_def map_concat)
  have rb: "rebuildTransport ?b = 1"
    by (simp add: rebuildTransport_foldl New_def)
  have "fst (fst (buildTransport env ?b w')) =
          Some (fst (applyWrappers (map probe (concat idss)) (stub out) w'))"
    by (simp add: buildTransport_def rb ws assms(2) split_beta)
  then have "t = fst (applyWrappers (map probe (concat idss)) (stub out) w')"
    by (simp add: assms(1))
  moreover have "\<And>w1. stub out r w1 = (out, w1\<lparr>events := events w1 @ [Sent r]\<rparr>)"
    by (simp add: stub_def)
  ultimately show ?thesis
    using applyWrappers_probe_run [of "stub out" r out "[Sent r]"] by simp
qed

theorem buildTransport_call_order_witness:
  "DefaultTransport env0 = stub ok0 \<and>
   (case fst (fst (buildTransport env0
        (foldl WrapTransport (fst (New world0)) (map (map probe) [[1], [2, 3]])) world0)) of
      None \<Rightarrow> []
    | Some t \<Rightarrow> events (snd (t request0 world0))) =
     [Entered 3, Entered 2, Entered 1, Sent request0, Exited 1 ok0, Exited 2 ok0, Exited 3 ok0]"
proof -
  let ?b = "foldl WrapTransport (fst (New world0)) (map (map probe) [[1], [2, 3]])"
  have d: "DefaultTransport env0 = stub ok0"
    by (simp add: env0_def)
  obtain t b' w'' where h: "buildTransport env0 ?b world0 = ((Some t, b'), w'')"
    by (simp add: buildTransport_def WrapTransport_def New_def split_beta)
  from buildTransport_call_order [OF h d, of request0 world0] h d show ?thesis
    by (simp add: world0_def)
qed

text \<open>
  With \<open>D1 = probe 1\<close> and \<open>D2 = probe 2\<close> registered in this order, the order of C1
  (\<open>D1\<close>, \<open>D2\<close>, base, back through \<open>D2\<close>, \<open>D1\<close>) is not what is recorded.
\<close>

theorem call_order_counterexample:
  "(case fst (fst (buildTransport env0 (WrapTransport (fst (New world0)) [probe 1, probe 2]) world0)) of
      None \<Rightarrow> []
    | Some t \<Rightarrow> events (snd (t request0 world0)))
   \<noteq> [Entered 1, Entered 2, Sent request0, Exited 2 ok0, Exited 1 ok0]"
  by (simp add: buildTransport_def WrapTransport_def New_def env0_def probe_def stub_def world0_def)

section \<open>URL assembly\<close>

lemma Values_lookup_Add:
  "Values_lookup (Values_Add v key val) k =
     (if k = key then Values_lookup v key @ [val] else Values_lookup v k)"
  by (induction v key val rule: Values_Add.induct) (auto simp: Values_lookup_def)

lemma encodeValues_onto:
  "encodeValues buf ke vs =
     (if buf = [] then spec_join (map (\<lambda>x. ke @ ''='' @ QueryEscape x) vs)
      else buf @ concat (map ((#) CHR ''&'') (map (\<lambda>x. ke @ ''='' @ QueryEscape x) vs)))"
  by (induction vs arbitrary: buf) (auto simp: spec_join_def)

lemma onto_append:
  assumes "\<forall>p \<in> set ps. p \<noteq> []"
  shows "(let b = (if buf = [] then spec_join ps else buf @ concat (map ((#) CHR ''&'') ps))
          in if b = [] then spec_join qs else b @ concat (map ((#) CHR ''&'') qs))
         = (if buf = [] then spec_join (ps @ qs) else buf @ concat (map ((#) CHR ''&'') (ps @ qs)))"
  using assms by (cases ps) (auto simp: spec_join_def Let_def)

lemma encodeKeys_onto:
  "encodeKeys v buf ks =
     (if buf = []
      then spec_join (concat (map (\<lambda>k. map (\<lambda>x. QueryEscape k @ ''='' @ QueryEscape x) (Values_lookup v k)) ks))
      else buf @ concat (map ((#) CHR ''&'')
             (concat (map (\<lambda>k. map (\<lambda>x. QueryEscape k @ ''='' @ QueryEscape x) (Values_lookup v k)) ks))))"
proof (induction ks arbitrary: buf)
  case Nil
  then show ?case by (simp add: spec_join_def)
next
  case (Cons k ks)
  let ?f = "\<lambda>k. map (\<lambda>x. QueryEscape k @ ''='' @ QueryEscape x) (Values_lookup v k)"
  let ?qs = "concat (map ?f ks)"
  have ne: "\<forall>p \<in> set (?f k). p \<noteq> []" by auto
  have "encodeKeys v buf (k # ks) = encodeKeys v (encodeValues buf (QueryEscape k) (Values_lookup v k)) ks"
    by simp
  also have "\<dots> = (let b = (if buf = [] then spec_join (?f k) else buf @ concat (map ((#) CHR ''&'') (?f k)))
          in if b = [] then spec_join ?qs else b @ concat (map ((#) CHR ''&'') ?qs))"
    unfolding Cons.IH encodeValues_onto Let_def ..
  also have "\<dots> = (if buf = [] then spec_join (?f k @ ?qs) else buf @ concat (map ((#) CHR ''&'') (?f k @ ?qs)))"
    by (rule onto_append [OF ne])
  finally show ?case by simp
qed

lemma Values_Encode_join:
  "Values_Encode v =
     spec_join (concat (map (\<lambda>k. map (\<lambda>x. QueryEscape k @ ''='' @ QueryEscape x) (Values_lookup v k))
                  (sort (map fst v))))"
  by (cases v) (simp_all add: Values_Encode_def encodeKeys_onto spec_join_def)

lemma upperhex_bytes: "list_all queryByte upperhex"
  by (simp add: upperhex_def queryByte_def shouldEscape_def)

lemma upperhex_nth: "n < 16 \<Longrightarrow> queryByte (upperhex ! n)"
  using upperhex_bytes by (simp add: list_all_length upperhex_def)

lemma QueryEscape_bytes: "list_all queryByte (QueryEscape s)"
proof (induction s)
  case Nil
  then show ?case by simp
next
  case (Cons c cs)
  have "of_char c < (256::nat)" by simp
  then have "of_char c div 16 < (16::nat)" "of_char c mod 16 < (16::nat)" by arith+
  then show ?case using Cons
    by (auto simp: upperhex_nth) (simp_all add: queryByte_def)
qed

lemma spec_join_bytes:
  "\<forall>p \<in> set ps. list_all queryByte p \<Longrightarrow> list_all queryByte (spec_join ps)"
  by (cases ps) (auto simp: spec_join_def list_all_iff queryByte_def)

lemma Values_Encode_bytes: "list_all queryByte (Values_Encode v)"
  unfolding Values_Encode_join
  by (rule spec_join_bytes) (use QueryEscape_bytes in \<open>auto simp: list_all_iff queryByte_def\<close>)

text \<open>
  C8, as the code has it. The URL that \<^verbatim>\<open>Do\<close> uses is the base URL (when set) followed by
  the URL, both exactly as the caller gave them, followed by \<^verbatim>\<open>?\<close> and the encoded query
  string when at least one query parameter was added. The query string is the pairs
  \<^verbatim>\<open>key=value\<close> joined by \<^verbatim>\<open>&\<close>, the keys in sorted order and each key with all its values
  in the order they were added, keys and values escaped by \<^verbatim>\<open>QueryEscape\<close>; it consists of
  unreserved characters, \<^verbatim>\<open>+\<close>, \<^verbatim>\<open>%\<close>, \<^verbatim>\<open>=\<close> and \<^verbatim>\<open>&\<close> only. \<^verbatim>\<open>QueryString\<close> appends the value
  to the values of its key and leaves the other keys alone. Nothing is said about the
  part in front of the query string, which \<^verbatim>\<open>buildURL\<close> does not inspect.
\<close>

theorem buildURL_assembly:
  "buildURL b =
     (if baseURL b \<noteq> [] then baseURL b @ url b else url b) @
     (if values b = [] then [] else ''?'' @ Values_Encode (values b))
   \<and> Values_Encode (values b) =
       spec_join (concat (map (\<lambda>k. map (\<lambda>x. QueryEscape k @ ''='' @ QueryEscape x)
                                     (Values_lookup (values b) k))
                    (sort (map fst (values b)))))
   \<and> list_all queryByte (Values_Encode (values b))
   \<and> Values_lookup (values (QueryString b key val)) k =
       (if k = key then Values_lookup (values b) key @ [val] else Values_lookup (values b) k)"
proof -
  have "buildURL b =
     (if baseURL b \<noteq> [] then baseURL b @ url b else url b) @
     (if values b = [] then [] else ''?'' @ Values_Encode (values b))"
    by (simp add: buildURL_def)
  moreover have "Values_lookup (values (QueryString b key val)) k =
       (if k = key then Values_lookup (values b) key @ [val] else Values_lookup (values b) k)"
    by (simp add: QueryString_def Values_lookup_Add)
  ultimately show ?thesis
    using Values_Encode_join [of "values b"] Values_Encode_bytes [of "values b"] by blast
qed

theorem buildURL_assembly_witness:
  "buildURL (QueryString (QueryString (QueryString
      (BaseURL (URL (fst (New world0)) ''/y'') ''http://x'') ''b'' ''2'') ''a'' ''x y'') ''b'' ''3'')
     = ''http://x/y?a=x+y&b=2&b=3''
   \<and> list_all queryByte ''a=x+y&b=2&b=3''"
proof -
  let ?b = "QueryString (QueryString (QueryString
      (BaseURL (URL (fst (New world0)) ''/y'') ''http://x'') ''b'' ''2'') ''a'' ''x y'') ''b'' ''3''"
  have v: "values ?b = [(''b'', [''2'', ''3'']), (''a'', [''x y''])]"
    by (simp add: QueryString_def BaseURL_def URL_def New_def)
  have u: "baseURL ?b = ''http://x''" "url ?b = ''/y''"
    by (simp_all add: QueryString_def BaseURL_def URL_def New_def)
  have e: "Values_Encode [(''b'', [''2'', ''3'']), (''a'', [''x y''])] = ''a=x+y&b=2&b=3''"
    by code_simp
  note t = buildURL_assembly [of ?b "''c''" "''d''" "''c''"]
  have "buildURL ?b = ''http://x/y?a=x+y&b=2&b=3''"
    using t [THEN conjunct1] by (simp add: v u e)
  moreover have "list_all queryByte ''a=x+y&b=2&b=3''"
    using t [THEN conjunct2, THEN conjunct2, THEN conjunct1] by (simp only: v e)
  ultimately show ?thesis ..
qed

text \<open>
  The last clause of C8 fails: a control byte in the caller's URL is copied into the
  result, which \<^verbatim>\<open>url.Parse\<close> then rejects; and a URL that already has a query gets a
  second \<^verbatim>\<open>?\<close>.
\<close>

theorem buildURL_wellformed_counterexample:
  "stringContainsCTLByte (buildURL (URL (fst (New world0)) (''http://x/y'' @ [CHR 0x0A])))
   \<and> buildURL (QueryString (URL (fst (New world0)) ''http://x/y?a=1'') ''b'' ''2'')
       = ''http://x/y?a=1?b=2''"
  by (simp add: buildURL_def URL_def QueryString_def New_def stringContainsCTLByte_def
        Values_Encode_def Values_lookup_def shouldEscape_def)

section \<open>The Timeout decorator\<close>

lemma time_Now_clock: "time_Now w = (now, w') \<Longrightarrow> clock w' = now"
  by (auto simp: time_Now_def split: list.splits)

lemma context_WithTimeout_result:
  assumes "context_WithTimeout parent t w = ((c, f), w')"
  shows "c = (case deadline parent of
                None \<Rightarrow> parent\<lparr>deadline := Some (clock w' + t)\<rparr>
              | Some cur \<Rightarrow> if cur < clock w' + t then parent
                            else parent\<lparr>deadline := Some (clock w' + t)\<rparr>)"
proof -
  obtain now w1 where n: "time_Now w = (now, w1)" by force
  have "clock w1 = now" using n by (rule time_Now_clock)
  then show ?thesis using assms n
    by (auto simp: context_WithTimeout_def context_WithDeadline_def Let_def split: option.splits if_splits)
qed

text \<open>
  C2. Whatever the inner transport is, the Timeout decorator calls it once, with the
  request's context replaced by a context \<open>c'\<close>, in a world \<open>w1\<close> whose clock shows the
  decorator's last reading of the time (\<open>now\<close>). With \<open>dur\<close> the configured duration
  (five seconds when it is not positive): when the incoming context carries a deadline
  at most \<open>now + dur\<close>, \<open>c'\<close> is the incoming context, deadline untouched; when it carries
  no deadline or a later one, \<open>c'\<close> is the incoming context with the deadline set to
  exactly \<open>now + dur\<close>. What happens after the inner call returns is the matter of C3.
\<close>

theorem TimeoutTransport_deadline:
  "\<exists>c' cancel w1.
     (\<forall>inner. fst (TimeoutTransport d inner w0) r w =
        deferred_cancel cancel (returned (fst (inner (r\<lparr>r_Context := c'\<rparr>) w1)),
                                snd (inner (r\<lparr>r_Context := c'\<rparr>) w1)))
     \<and> c' = (case deadline (r_Context r) of
                None \<Rightarrow> (r_Context r)\<lparr>deadline := Some (clock w1 + (if d \<le> 0 then Second * 5 else d))\<rparr>
              | Some dl \<Rightarrow> if dl \<le> clock w1 + (if d \<le> 0 then Second * 5 else d) then r_Context r
                            else (r_Context r)\<lparr>deadline := Some (clock w1 + (if d \<le> 0 then Second * 5 else d))\<rparr>)"
proof -
  let ?dur = "if d \<le> 0 then Second * 5 else d"
  show ?thesis
  proof (cases "deadline (r_Context r)")
    case None
    obtain c f w1 where wt: "context_WithTimeout (r_Context r) ?dur w = ((c, f), w1)"
      by (metis prod.exhaust)
    have "\<forall>inner. fst (TimeoutTransport d inner w0) r w =
        deferred_cancel (Some f) (returned (fst (inner (r\<lparr>r_Context := c\<rparr>) w1)),
                                snd (inner (r\<lparr>r_Context := c\<rparr>) w1))"
      using None wt by (simp add: TimeoutTransport_def Let_def split_beta)
    moreover have "c = (r_Context r)\<lparr>deadline := Some (clock w1 + ?dur)\<rparr>"
      using context_WithTimeout_result [OF wt] None by simp
    ultimately show ?thesis using None by (intro exI [of _ c] exI [of _ "Some f"] exI [of _ w1]) simp
  next
    case (Some dl)
    obtain now w' where n: "time_Now w = (now, w')" by force
    have cl: "clock w' = now" using n by (rule time_Now_clock)
    show ?thesis
    proof (cases "now + ?dur < dl")
      case True
      obtain c f w1 where wt: "context_WithTimeout (r_Context r) ?dur w' = ((c, f), w1)"
        by (metis prod.exhaust)
      have "\<forall>inner. fst (TimeoutTransport d inner w0) r w =
          deferred_cancel (Some f) (returned (fst (inner (r\<lparr>r_Context := c\<rparr>) w1)),
                                  snd (inner (r\<lparr>r_Context := c\<rparr>) w1))"
        using Some n True wt by (simp add: TimeoutTransport_def Let_def split_beta)
      moreover have "c = (if dl \<le> clock w1 + ?dur then r_Context r
                            else (r_Context r)\<lparr>deadline := Some (clock w1 + ?dur)\<rparr>)"
        using context_WithTimeout_result [OF wt] Some by (auto split: if_splits)
      ultimately show ?thesis using Some
        by (intro exI [of _ c] exI [of _ "Some f"] exI [of _ w1]) simp
    next
      case False
      have "\<forall>inner. fst (TimeoutTransport d inner w0) r w =
          deferred_cancel None (returned (fst (inner (r\<lparr>r_Context := r_Context r\<rparr>) w')),
                                  snd (inner (r\<lparr>r_Context := r_Context r\<rparr>) w'))"
        using Some n False by (simp add: TimeoutTransport_def Let_def split_beta)
      then show ?thesis using Some False cl
        by (intro exI [of _ "r_Context r"] exI [of _ None] exI [of _ w']) simp
    qed
  qed
qed

theorem TimeoutTransport_deadline_witness:
  "\<exists>c'. Sent (request0\<lparr>r_Context := c'\<rparr>)
          \<in> set (events (snd (fst (TimeoutTransport Second (stub ok0) world0) request0 world0)))
        \<and> deadline c' = Some (clock (snd (fst (TimeoutTransport Second (stub ok0) world0) request0 world0))
                                + Second)"
proof -
  obtain c' cancel w1 where
    run: "fst (TimeoutTransport Second (stub ok0) world0) request0 world0 =
            deferred_cancel cancel (returned (fst (stub ok0 (request0\<lparr>r_Context := c'\<rparr>) w1)),
                                    snd (stub ok0 (request0\<lparr>r_Context := c'\<rparr>) w1))"
    and c': "c' = (case deadline (r_Context request0) of
                None \<Rightarrow> (r_Context request0)\<lparr>deadline := Some (clock w1 + (if Second \<le> 0 then Second * 5 else Second))\<rparr>
              | Some dl \<Rightarrow> if dl \<le> clock w1 + (if Second \<le> 0 then Second * 5 else Second) then r_Context request0
                            else (r_Context request0)\<lparr>deadline := Some (clock w1 + (if Second \<le> 0 then Second * 5 else Second))\<rparr>)"
    using TimeoutTransport_deadline [of Second world0 request0 world0] by blast
  have d: "deadline c' = Some (clock w1 + Second)"
    using c' by (simp add: request0_def todo_def Second_def)
  have "Sent (request0\<lparr>r_Context := c'\<rparr>)
          \<in> set (events (snd (fst (TimeoutTransport Second (stub ok0) world0) request0 world0)))"
    and "clock (snd (fst (TimeoutTransport Second (stub ok0) world0) request0 world0)) = clock w1"
    unfolding run by (cases cancel; simp add: deferred_cancel_def stub_def call_cancel_def)+
  with d show ?thesis by auto
qed

lemma TimeoutTransport_nil_cancel:
  assumes "deadline (r_Context r) = Some dl"
    and "dl \<le> fst (time_Now w) + (if d \<le> 0 then Second * 5 else d)"
  shows "fst (TimeoutTransport d inner w0) r w =
           (Panic ''invalid memory address or nil pointer dereference'',
            snd (inner r (snd (time_Now w))))"
  using assms by (simp add: TimeoutTransport_def deferred_cancel_def Let_def split_beta)

lemma time_Now_keeps:
  "nextCancel (snd (time_Now w)) = nextCancel w" "events (snd (time_Now w)) = events w"
  "logger (snd (time_Now w)) = logger w" "headers (snd (time_Now w)) = headers w"
  by (simp_all add: time_Now_def split: list.splits)

text \<open>
  When a context is derived (the incoming context has no deadline, or a later one), its
  cancel function is called after the inner call, whether that returned a response, an
  error or panicked.
\<close>

lemma TimeoutTransport_releases:
  assumes "deadline (r_Context r) = None
           \<or> (\<exists>dl. deadline (r_Context r) = Some dl \<and> fst (time_Now w) + (if d \<le> 0 then Second * 5 else d) < dl)"
  shows "\<exists>c' w1. fst (TimeoutTransport d inner w0) r w =
           (returned (fst (inner (r\<lparr>r_Context := c'\<rparr>) w1)),
            call_cancel (nextCancel w) (snd (inner (r\<lparr>r_Context := c'\<rparr>) w1)))
         \<and> events w1 = events w @ [CtxDerived (nextCancel w)]"
proof -
  let ?dur = "if d \<le> 0 then Second * 5 else d"
  let ?w' = "case deadline (r_Context r) of None \<Rightarrow> w | Some dl \<Rightarrow> snd (time_Now w)"
  obtain c f w1 where wt: "context_WithTimeout (r_Context r) ?dur ?w' = ((c, f), w1)"
    by (metis prod.exhaust)
  have f: "f = nextCancel w" and e: "events w1 = events w @ [CtxDerived (nextCancel w)]"
    using wt time_Now_keeps [of w] time_Now_keeps [of "snd (time_Now w)"]
    by (auto simp: context_WithTimeout_def context_WithDeadline_def Let_def split_beta
          split: option.splits if_splits)
  have "fst (TimeoutTransport d inner w0) r w =
           (returned (fst (inner (r\<lparr>r_Context := c\<rparr>) w1)),
            call_cancel f (snd (inner (r\<lparr>r_Context := c\<rparr>) w1)))"
    using assms wt
    by (auto simp: TimeoutTransport_def deferred_cancel_def Let_def split_beta)
  then show ?thesis using f e by blast
qed

text \<open>
  C3 at a failing input. The incoming context carries a deadline half a second away and
  the decorator is configured for one second: no context is derived, \<^verbatim>\<open>cancel\<close> stays
  \<^verbatim>\<open>nil\<close>, the inner transport is called and answers 200, and the deferred \<^verbatim>\<open>cancel()\<close>
  then panics instead of the decorator returning the response.
\<close>

theorem TimeoutTransport_earlier_deadline_panics:
  "fst (TimeoutTransport Second (stub ok0) world0) requestSoon world0 =
     (Panic ''invalid memory address or nil pointer dereference'',
      world0\<lparr>clock := 1007, ticks := [3000000, 13, 17], events := [Sent requestSoon]\<rparr>)"
  by (simp add: TimeoutTransport_nil_cancel [where dl = 500001000]
        requestSoon_def request0_def todo_def time_Now_def world0_def Second_def stub_def)

section \<open>The transport cache\<close>

text \<open>
  The flag \<^verbatim>\<open>rebuildTransport\<close> is 1 in a new builder, and a build stores 1 again: once 1
  it stays 1, and every build folds the decorators over the base transport.
\<close>

lemma buildTransport_flag:
  "rebuildTransport b = 1 \<Longrightarrow> rebuildTransport (snd (fst (buildTransport env b w))) = 1"
  by (simp add: buildTransport_def split_beta)

lemma buildTransport_folds:
  "rebuildTransport b = 1 \<Longrightarrow>
     buildTransport env b w =
       ((Some (fst (applyWrappers (transportWrappers b) (DefaultTransport env) w)),
         b\<lparr>cachedTransport := Some (fst (applyWrappers (transportWrappers b) (DefaultTransport env) w)),
           rebuildTransport := 1\<rparr>),
        snd (applyWrappers (transportWrappers b) (DefaultTransport env) w))"
  by (simp add: buildTransport_def split_beta)

text \<open>
  C4 at a failing input. A new builder with the Trace decorator registered is built twice
  with no \<^verbatim>\<open>WrapTransport\<close> in between. The second \<^verbatim>\<open>buildTransport\<close> applies the decorator
  again (it asks for the tracer a second time) instead of returning the cached transport:
  the flag is stored as 1 after the first build and is still 1 after the second.
\<close>

theorem buildTransport_twice_refolds:
  "events (snd built1) = [TracerRequested ''demo'']
   \<and> rebuildTransport (snd (fst built1)) = 1
   \<and> events (snd built2) = [TracerRequested ''demo'', TracerRequested ''demo'']
   \<and> rebuildTransport (snd (fst built2)) = 1"
  by (simp add: built2_def built1_def builder1_def buildTransport_def WrapTransport_def New_def
        TraceTransport_def otel_Tracer_def world0_def split_beta)

section \<open>The Trace decorator\<close>




section \<open>The Logging decorator\<close>

lemma LoggingTransport_run:
  assumes "time_Now w = (start, w1)" and "time_Now (snd (inner r w1)) = (now, w3)"
  shows "fst (LoggingTransport name inner w0) r w =
     (returned (fst (inner r w1)),
      w3\<lparr>logger := logger w3 @
               [zap_String ''host'' (r_Host r),
                zap_String ''host'' (r_URL_Path r),
                zap_String ''service'' name,
                zap_String_time ''start'' start,
                zap_Int64 ''elapsed'' (Milliseconds (now - start)),
                zap_String ''trace_id'' (case traceIDValue (r_Context r) of None \<Rightarrow> [] | Some t \<Rightarrow> t)] @
               (case returned (fst (inner r w1)) of
                  Return (Some rsp, e) \<Rightarrow> [zap_Int ''statuscode'' (StatusCode rsp)]
                | Return (None, e) \<Rightarrow> []
                | Panic p \<Rightarrow> []),
         events := events (snd (inner r w1)) @
           [LogInfo ''client_request''
              (logger w3 @
               [zap_String ''host'' (r_Host r),
                zap_String ''host'' (r_URL_Path r),
                zap_String ''service'' name,
                zap_String_time ''start'' start,
                zap_Int64 ''elapsed'' (Milliseconds (now - start)),
                zap_String ''trace_id'' (case traceIDValue (r_Context r) of None \<Rightarrow> [] | Some t \<Rightarrow> t)] @
               (case returned (fst (inner r w1)) of
                  Return (Some rsp, e) \<Rightarrow> [zap_Int ''statuscode'' (StatusCode rsp)]
                | Return (None, e) \<Rightarrow> []
                | Panic p \<Rightarrow> []))]\<rparr>)"
proof -
  have ev: "events w3 = events (snd (inner r w1))"
    using time_Now_keeps(2) [of "snd (inner r w1)"] assms(2) by simp
  show ?thesis
    using assms ev
    by (cases "returned (fst (inner r w1))")
       (auto simp: LoggingTransport_def traceIDFromContext_def Let_def split_beta
          split: option.splits)
qed

text \<open>
  Whatever the inner transport does (returns a response, returns an error, panics), the
  Logging decorator adds exactly one event to what the inner call left, a log entry
  \<^verbatim>\<open>client_request\<close>, written after the inner call. Its fields are those of the global
  logger at that moment, followed by the target host, the target path (under the key
  \<^verbatim>\<open>host\<close> again), the service name, the start time, the elapsed milliseconds, the trace
  identifier of the request's context (empty when none is bound) and, when the inner call
  returned a response without error, the status code.
\<close>

lemma LoggingTransport_one_event:
  "\<exists>start w1. time_Now w = (start, w1) \<and>
     (\<forall>inner. \<exists>now w3 fs.
        time_Now (snd (inner r w1)) = (now, w3)
        \<and> fs = logger w3 @
               [zap_String ''host'' (r_Host r),
                zap_String ''host'' (r_URL_Path r),
                zap_String ''service'' name,
                zap_String_time ''start'' start,
                zap_Int64 ''elapsed'' (Milliseconds (now - start)),
                zap_String ''trace_id'' (case traceIDValue (r_Context r) of None \<Rightarrow> [] | Some t \<Rightarrow> t)] @
               (case returned (fst (inner r w1)) of
                  Return (Some rsp, e) \<Rightarrow> [zap_Int ''statuscode'' (StatusCode rsp)]
                | Return (None, e) \<Rightarrow> []
                | Panic p \<Rightarrow> [])
        \<and> fst (LoggingTransport name inner w0) r w =
             (returned (fst (inner r w1)),
              w3\<lparr>logger := fs, events := events (snd (inner r w1)) @ [LogInfo ''client_request'' fs]\<rparr>))"
proof -
  obtain start w1 where s: "time_Now w = (start, w1)" by force
  have "\<exists>now w3 fs.
        time_Now (snd (inner r w1)) = (now, w3)
        \<and> fs = logger w3 @
               [zap_String ''host'' (r_Host r),
                zap_String ''host'' (r_URL_Path r),
                zap_String ''service'' name,
                zap_String_time ''start'' start,
                zap_Int64 ''elapsed'' (Milliseconds (now - start)),
                zap_String ''trace_id'' (case traceIDValue (r_Context r) of None \<Rightarrow> [] | Some t \<Rightarrow> t)] @
               (case returned (fst (inner r w1)) of
                  Return (Some rsp, e) \<Rightarrow> [zap_Int ''statuscode'' (StatusCode rsp)]
                | Return (None, e) \<Rightarrow> []
                | Panic p \<Rightarrow> [])
        \<and> fst (LoggingTransport name inner w0) r w =
             (returned (fst (inner r w1)),
              w3\<lparr>logger := fs, events := events (snd (inner r w1)) @ [LogInfo ''client_request'' fs]\<rparr>)" for inner
  proof -
    obtain now w3 where n: "time_Now (snd (inner r w1)) = (now, w3)" by force
    show ?thesis
      using LoggingTransport_run [where inner = inner and r = r, OF s n] n by blast
  qed
  then show ?thesis using s by blast
qed

lemma LoggingTransport_one_event_example:
  "fst (LoggingTransport ''demo'' (stub ok0) world0) request0 world0 =
     (ok0,
      world0\<lparr>clock := 3001007, ticks := [13, 17],
        logger := [zap_String ''host'' ''x'', zap_String ''host'' ''/y'', zap_String ''service'' ''demo'',
                   zap_String_time ''start'' 1007, zap_Int64 ''elapsed'' 3, zap_String ''trace_id'' [],
                   zap_Int ''statuscode'' 200],
        events := [Sent request0,
                   LogInfo ''client_request''
                     [zap_String ''host'' ''x'', zap_String ''host'' ''/y'', zap_String ''service'' ''demo'',
                      zap_String_time ''start'' 1007, zap_Int64 ''elapsed'' 3, zap_String ''trace_id'' [],
                      zap_Int ''statuscode'' 200]]\<rparr>)"
proof -
  obtain start w1 where s: "time_Now world0 = (start, w1)"
    and a: "\<forall>inner. \<exists>now w3 fs.
        time_Now (snd (inner request0 w1)) = (now, w3)
        \<and> fs = logger w3 @
               [zap_String ''host'' (r_Host request0),
                zap_String ''host'' (r_URL_Path request0),
                zap_String ''service'' ''demo'',
                zap_String_time ''start'' start,
                zap_Int64 ''elapsed'' (Milliseconds (now - start)),
                zap_String ''trace_id'' (case traceIDValue (r_Context request0) of None \<Rightarrow> [] | Some t \<Rightarrow> t)] @
               (case returned (fst (inner request0 w1)) of
                  Return (Some rsp, e) \<Rightarrow> [zap_Int ''statuscode'' (StatusCode rsp)]
                | Return (None, e) \<Rightarrow> []
                | Panic p \<Rightarrow> [])
        \<and> fst (LoggingTransport ''demo'' inner world0) request0 world0 =
             (returned (fst (inner request0 w1)),
              w3\<lparr>logger := fs, events := events (snd (inner request0 w1)) @ [LogInfo ''client_request'' fs]\<rparr>)"
    using LoggingTransport_one_event [of world0 request0 "''demo''" world0] by blast
  have s': "start = 1007" "w1 = world0\<lparr>clock := 1007, ticks := [3000000, 13, 17]\<rparr>"
    using s by (simp_all add: time_Now_def world0_def)
  obtain now w3 fs where n: "time_Now (snd (stub ok0 request0 w1)) = (now, w3)"
    and fs: "fs = logger w3 @
               [zap_String ''host'' (r_Host request0),
                zap_String ''host'' (r_URL_Path request0),
                zap_String ''service'' ''demo'',
                zap_String_time ''start'' start,
                zap_Int64 ''elapsed'' (Milliseconds (now - start)),
                zap_String ''trace_id'' (case traceIDValue (r_Context request0) of None \<Rightarrow> [] | Some t \<Rightarrow> t)] @
               (case returned (fst (stub ok0 request0 w1)) of
                  Return (Some rsp, e) \<Rightarrow> [zap_Int ''statuscode'' (StatusCode rsp)]
                | Return (None, e) \<Rightarrow> []
                | Panic p \<Rightarrow> [])"
    and run: "fst (LoggingTransport ''demo'' (stub ok0) world0) request0 world0 =
             (returned (fst (stub ok0 request0 w1)),
              w3\<lparr>logger := fs, events := events (snd (stub ok0 request0 w1)) @ [LogInfo ''client_request'' fs]\<rparr>)"
    using a [THEN spec, of "stub ok0"] by blast
  have n': "now = 3001007" "w3 = world0\<lparr>clock := 3001007, ticks := [13, 17], events := [Sent request0]\<rparr>"
    using n s' by (simp_all add: time_Now_def stub_def world0_def)
  show ?thesis
    unfolding run fs n' s'
    by (simp add: stub_def ok0_def response0_def request0_def todo_def world0_def Milliseconds_def)
qed

text \<open>
  C6 at a failing input. Two requests go through the Logging decorator one after the
  other: the first, to host \<^verbatim>\<open>x\<close> and path \<^verbatim>\<open>/y\<close>, is answered 200; the second, to host \<^verbatim>\<open>z\<close>
  and path \<^verbatim>\<open>/w\<close>, fails with a transport error. The entry written for the second request
  carries the first request's host, path, start, elapsed time and status code 200 in front
  of its own fields, although no response was obtained for it, and in each group the path
  stands under the key \<^verbatim>\<open>host\<close>, after the host.
\<close>

theorem LoggingTransport_stale_fields:
  "fst (fst (LoggingTransport ''demo'' (stub failed0) world0) requestOther
          (snd (fst (LoggingTransport ''demo'' (stub ok0) world0) request0 world0))) = failed0
   \<and> last (events (snd (fst (LoggingTransport ''demo'' (stub failed0) world0) requestOther
          (snd (fst (LoggingTransport ''demo'' (stub ok0) world0) request0 world0))))) =
       LogInfo ''client_request''
         [zap_String ''host'' ''x'', zap_String ''host'' ''/y'', zap_String ''service'' ''demo'',
          zap_String_time ''start'' 1007, zap_Int64 ''elapsed'' 3, zap_String ''trace_id'' [],
          zap_Int ''statuscode'' 200,
          zap_String ''host'' ''z'', zap_String ''host'' ''/w'', zap_String ''service'' ''demo'',
          zap_String_time ''start'' 3001020, zap_Int64 ''elapsed'' 0, zap_String ''trace_id'' []]"
proof -
  let ?l1 = "[zap_String ''host'' ''x'', zap_String ''host'' ''/y'', zap_String ''service'' ''demo'',
              zap_String_time ''start'' 1007, zap_Int64 ''elapsed'' 3, zap_String ''trace_id'' [],
              zap_Int ''statuscode'' 200]"
  let ?w1 = "world0\<lparr>clock := 3001007, ticks := [13, 17], logger := ?l1,
               events := [Sent request0, LogInfo ''client_request'' ?l1]\<rparr>"
  have first: "snd (fst (LoggingTransport ''demo'' (stub ok0) world0) request0 world0) = ?w1"
    using LoggingTransport_one_event_example by simp
  have s: "time_Now ?w1 = (3001020, ?w1\<lparr>clock := 3001020, ticks := [17]\<rparr>)"
    by (simp add: time_Now_def world0_def)
  have n: "time_Now (snd (stub failed0 requestOther (?w1\<lparr>clock := 3001020, ticks := [17]\<rparr>))) =
             (3001037, ?w1\<lparr>clock := 3001037, ticks := [],
                events := [Sent request0, LogInfo ''client_request'' ?l1, Sent requestOther]\<rparr>)"
    by (simp add: time_Now_def stub_def world0_def)
  show ?thesis
    unfolding first LoggingTransport_run [where inner = "stub failed0" and r = requestOther, OF s n]
    by (simp add: stub_def failed0_def requestOther_def request0_def todo_def world0_def
          Milliseconds_def)
qed

lemma LoggingTransport_logger:
  assumes "\<And>r w. logger (snd (inner r w)) = logger w"
  shows "\<exists>f. logger (snd (fst (LoggingTransport name inner w0) r w)) = logger w @ f
            \<and> zap_String ''host'' (r_Host r) \<in> set f
            \<and> zap_String ''host'' (r_URL_Path r) \<in> set f
            \<and> zap_String ''service'' name \<in> set f
            \<and> zap_String ''trace_id'' (traceIDFromContext (r_Context r)) \<in> set f
            \<and> last (events (snd (fst (LoggingTransport name inner w0) r w))) =
                 LogInfo ''client_request'' (logger w @ f)"
proof -
  obtain start w1 where s: "time_Now w = (start, w1)" by force
  obtain now w3 where n: "time_Now (snd (inner r w1)) = (now, w3)" by force
  have l: "logger w3 = logger w"
    using time_Now_keeps(3) [of w] time_Now_keeps(3) [of "snd (inner r w1)"] s n assms by simp
  show ?thesis
    unfolding LoggingTransport_run [where inner = inner and r = r, OF s n] 
    by (rule exI [of _ "[zap_String ''host'' (r_Host r),
                zap_String ''host'' (r_URL_Path r),
                zap_String ''service'' name,
                zap_String_time ''start'' start,
                zap_Int64 ''elapsed'' (Milliseconds (now - start)),
                zap_String ''trace_id'' (case traceIDValue (r_Context r) of None \<Rightarrow> [] | Some t \<Rightarrow> t)] @
               (case returned (fst (inner r w1)) of
                  Return (Some rsp, e) \<Rightarrow> [zap_Int ''statuscode'' (StatusCode rsp)]
                | Return (None, e) \<Rightarrow> []
                | Panic p \<Rightarrow> [])"]) (simp add: l traceIDFromContext_def)
qed

text \<open>
  C9. The deferred function of the Logging decorator assigns the child logger to the
  package-global \<^verbatim>\<open>logger\<close>. So, for two requests executed one after the other through
  Logging decorators whose inner transports leave the global logger alone: after the first
  request the global logger carries that request's fields \<open>f1\<close> after the fields it had
  before, and the entry written for the second request carries the fields the logger had
  before, then \<open>f1\<close>, then the second request's own fields \<open>f2\<close>.
\<close>

theorem LoggingTransport_accumulates:
  assumes "\<And>r w. logger (snd (next1 r w)) = logger w"
    and "\<And>r w. logger (snd (next2 r w)) = logger w"
  shows "\<exists>f1 f2.
      logger (snd (fst (LoggingTransport name1 next1 w0) r1 w)) = logger w @ f1
    \<and> zap_String ''host'' (r_Host r1) \<in> set f1
    \<and> zap_String ''host'' (r_URL_Path r1) \<in> set f1
    \<and> zap_String ''service'' name1 \<in> set f1
    \<and> zap_String ''trace_id'' (traceIDFromContext (r_Context r1)) \<in> set f1
    \<and> zap_String ''host'' (r_Host r2) \<in> set f2
    \<and> zap_String ''service'' name2 \<in> set f2
    \<and> logger (snd (fst (LoggingTransport name2 next2 w0') r2
                        (snd (fst (LoggingTransport name1 next1 w0) r1 w)))) = logger w @ f1 @ f2
    \<and> last (events (snd (fst (LoggingTransport name2 next2 w0') r2
                        (snd (fst (LoggingTransport name1 next1 w0) r1 w))))) =
         LogInfo ''client_request'' (logger w @ f1 @ f2)"
proof -
  let ?w1 = "snd (fst (LoggingTransport name1 next1 w0) r1 w)"
  obtain f1 where 1: "logger ?w1 = logger w @ f1"
      "zap_String ''host'' (r_Host r1) \<in> set f1"
      "zap_String ''host'' (r_URL_Path r1) \<in> set f1"
      "zap_String ''service'' name1 \<in> set f1"
      "zap_String ''trace_id'' (traceIDFromContext (r_Context r1)) \<in> set f1"
    using LoggingTransport_logger [of next1 name1 w0 r1 w, OF assms(1)] by blast
  obtain f2 where 2: "logger (snd (fst (LoggingTransport name2 next2 w0') r2 ?w1)) = logger ?w1 @ f2"
      "zap_String ''host'' (r_Host r2) \<in> set f2"
      "zap_String ''service'' name2 \<in> set f2"
      "last (events (snd (fst (LoggingTransport name2 next2 w0') r2 ?w1))) =
                 LogInfo ''client_request'' (logger ?w1 @ f2)"
    using LoggingTransport_logger [of next2 name2 w0' r2 ?w1, OF assms(2)] by blast
  show ?thesis
    using 1 2 by (intro exI [of _ f1] exI [of _ f2]) simp
qed

theorem LoggingTransport_accumulates_witness:
  "\<exists>f1 f2. zap_String ''service'' ''demo'' \<in> set f1 \<and> zap_String ''service'' ''demo'' \<in> set f2
     \<and> last (events (snd (fst (LoggingTransport ''demo'' (stub ok0) world0) request0
                        (snd (fst (LoggingTransport ''demo'' (stub ok0) world0) request0 world0))))) =
         LogInfo ''client_request'' (f1 @ f2)"
proof -
  have p: "\<And>r w. logger (snd (stub ok0 r w)) = logger w"
    by (simp add: stub_def)
  from LoggingTransport_accumulates [of "stub ok0" "stub ok0" "''demo''" world0 request0 world0
      request0 "''demo''" world0, OF p p]
  show ?thesis by (auto simp: world0_def)
qed

section \<open>Do\<close>















lemma builder2_fields:
  "req builder2 = None" "resp builder2 = None" "header builder2 = 0" "codec builder2 = None"
  "buildURL builder2 = ''http://x/y''" "buildMethod builder2 = ''GET''"
  "rebuildTransport builder2 = 1" "transportWrappers builder2 = [TraceTransport ''demo'']"
  "method builder2 = []" "baseURL builder2 = []" "values builder2 = []" "url builder2 = ''http://x/y''"
  by (simp_all add: builder2_def WrapTransport_def URL_def New_def buildURL_def buildMethod_def world0_def)









lemma worldNew_eq: "worldNew = world0\<lparr>headers := (\<lambda>a. []), nextHeader := 1\<rparr>"
  by (simp add: worldNew_def New_def world0_def fun_upd_def)

lemma builderChan_fields:
  "req builderChan = Some ''chan''" "codec builderChan = None"
  by (simp_all add: builderChan_def Req_def URL_def New_def)




text \<open>
  C7. When a request value is set and the codec's \<^verbatim>\<open>Encode\<close> fails, \<^verbatim>\<open>Do\<close> returns that error
  and leaves the builder and the world as they were: no decorator is applied and no
  transport is called, whatever they are. When no request value is set, replacing
  \<^verbatim>\<open>Encode\<close> (of the builder's codec and of the default codec) by any other function
  changes neither the result of \<^verbatim>\<open>Do\<close> nor the world it leaves: \<^verbatim>\<open>Encode\<close> is not called.
\<close>

theorem Do_encode:
  "(req b = Some v \<and> Encode (buildCodec env b) v = Inl err
      \<longrightarrow> Do (env :: ('a, 'b) env) b ctx w = ((Return (Some err), b), w))
   \<and> (req b = None
      \<longrightarrow> fst (fst (Do (env\<lparr>defaultCodec := (defaultCodec env)\<lparr>Encode := (e :: 'a \<Rightarrow> error + string)\<rparr>\<rparr>)
                       (b\<lparr>codec := map_option (\<lambda>c. c\<lparr>Encode := e\<rparr>) (codec b)\<rparr>) ctx w))
            = fst (fst (Do env b ctx w))
        \<and> snd (Do (env\<lparr>defaultCodec := (defaultCodec env)\<lparr>Encode := e\<rparr>\<rparr>)
                 (b\<lparr>codec := map_option (\<lambda>c. c\<lparr>Encode := e\<rparr>) (codec b)\<rparr>) ctx w)
            = snd (Do env b ctx w))"
proof (intro conjI impI)
  assume "req b = Some v \<and> Encode (buildCodec env b) v = Inl err"
  then show "Do env b ctx w = ((Return (Some err), b), w)"
    by (simp add: Do_def)
next
  assume n: "req b = None"
  let ?env = "env\<lparr>defaultCodec := (defaultCodec env)\<lparr>Encode := e\<rparr>\<rparr>"
  let ?b = "b\<lparr>codec := map_option (\<lambda>c. c\<lparr>Encode := e\<rparr>) (codec b)\<rparr>"
  have nr: "NewRequestWithContext ?env ctx m u body w = NewRequestWithContext env ctx m u body w" for m u body
    by (simp add: NewRequestWithContext_def Let_def split: option.splits)
  have bu: "buildURL ?b = buildURL b" "buildMethod ?b = buildMethod b"
    by (simp_all add: buildURL_def buildMethod_def Let_def)
  have dec: "Decode (buildCodec ?env ?b) = Decode (buildCodec env b)"
    by (cases "codec b") (simp_all add: buildCodec_def)
  have bt: "fst (fst (buildTransport ?env ?b w')) = fst (fst (buildTransport env b w'))"
           "snd (buildTransport ?env ?b w') = snd (buildTransport env b w')"
           "resp (snd (fst (buildTransport ?env ?b w'))) = resp (snd (fst (buildTransport env b w')))" for w'
    by (simp_all add: buildTransport_def split_beta)
  have cd: "Client_Do ?env c r w' = Client_Do env c r w'" for c r w'
    by (simp add: Client_Do_def cong: option.case_cong prod.case_cong if_cong)
  show "fst (fst (Do ?env ?b ctx w)) = fst (fst (Do env b ctx w))"
    using n by (simp add: Do_def nr bu dec bt cd buildClient_def Let_def split_beta
          split: outcome.splits option.splits prod.splits sum.splits)
  show "snd (Do ?env ?b ctx w) = snd (Do env b ctx w)"
    using n by (simp add: Do_def nr bu dec bt cd buildClient_def Let_def split_beta
          split: outcome.splits option.splits prod.splits sum.splits)
qed

theorem Do_encode_witness:
  "req builderChan = Some ''chan''
   \<and> Encode (buildCodec env0 builderChan) ''chan'' = Inl (Error ''json: unsupported type'')
   \<and> Do env0 builderChan (Some todo) worldNew =
       ((Return (Some (Error ''json: unsupported type'')), builderChan), worldNew)
   \<and> events worldNew = []
   \<and> req builder2 = None
   \<and> fst (fst (Do (env0\<lparr>defaultCodec := (defaultCodec env0)\<lparr>Encode := (\<lambda>v. Inl (Error ''unused''))\<rparr>\<rparr>)
                  (builder2\<lparr>codec := map_option (\<lambda>c. c\<lparr>Encode := (\<lambda>v. Inl (Error ''unused''))\<rparr>) (codec builder2)\<rparr>)
                  (Some todo) worldNew)) = fst (fst done1)
   \<and> snd (Do (env0\<lparr>defaultCodec := (defaultCodec env0)\<lparr>Encode := (\<lambda>v. Inl (Error ''unused''))\<rparr>\<rparr>)
             (builder2\<lparr>codec := map_option (\<lambda>c. c\<lparr>Encode := (\<lambda>v. Inl (Error ''unused''))\<rparr>) (codec builder2)\<rparr>)
             (Some todo) worldNew) = snd done1"
proof -
  have a: "req builderChan = Some ''chan''
           \<and> Encode (buildCodec env0 builderChan) ''chan'' = Inl (Error ''json: unsupported type'')"
    by (simp add: builderChan_fields buildCodec_def env0_def)
  have b: "req builder2 = None"
    by (simp add: builder2_fields)
  have e: "events worldNew = []"
    by (simp add: worldNew_eq world0_def)
  from Do_encode [where b = builderChan and v = "''chan''" and env = env0
                    and err = "Error ''json: unsupported type''" and ctx = "Some todo" and w = worldNew
                    and e = "\<lambda>v. Inl (Error ''unused'')"]
       Do_encode [where b = builder2 and v = "''chan''" and env = env0
                    and err = "Error ''json: unsupported type''" and ctx = "Some todo" and w = worldNew
                    and e = "\<lambda>v. Inl (Error ''unused'')"]
       a b e
  show ?thesis unfolding done1_def by blast
qed

end
